theory Spec2Isabelle
  imports Main
begin

section \<open>Data model of the replica-set controller\<close>

text \<open>
  The controller of \<^verbatim>\<open>pkg/controller/mongodb/mongodb_controller.go\<close> reads a MongoDB
  resource, derives a ConfigMap carrying the serialised automation config and a StatefulSet
  running the agent, and writes both with create-or-update calls.  Go structs are records,
  Go maps from strings to strings are partial functions, Go's \<^verbatim>\<open>int\<close> is \<^typ>\<open>int\<close>
  (no arithmetic is done on it here), and every \<^verbatim>\<open>error\<close> result is a value.
\<close>

subsection \<open>Errors and results\<close>

text \<open>
  The error kinds of the controller.  \<^verbatim>\<open>errors.IsNotFound\<close> recognises the first one;
  the others carry their message.
\<close>

datatype error =
    NotFoundError
  | ReadError string
  | SerializationError string
  | BuildError string
  | UpsertError string

fun IsNotFound :: "error \<Rightarrow> bool" where
  "IsNotFound NotFoundError = True"
| "IsNotFound (ReadError m) = False"
| "IsNotFound (SerializationError m) = False"
| "IsNotFound (BuildError m) = False"
| "IsNotFound (UpsertError m) = False"

text \<open>\<^verbatim>\<open>reconcile.Result\<close>; the literal \<^verbatim>\<open>reconcile.Result{}\<close> is its zero value.\<close>

record Result =
  Requeue :: bool
  RequeueAfter :: int

definition Result_zero :: Result where
  "Result_zero = \<lparr>Requeue = False, RequeueAfter = 0\<rparr>"

text \<open>
  The note above \<^verbatim>\<open>Reconcile\<close>: the request is requeued when the returned error is non-nil
  or \<^verbatim>\<open>Result.Requeue\<close> is true, and is removed from the queue otherwise.
\<close>

fun requeue_requested :: "Result \<times> error option \<Rightarrow> bool" where
  "requeue_requested (res, Some e) = True"
| "requeue_requested (res, None) = Requeue res"

subsection \<open>The MongoDB resource\<close>

type_synonym NamespacedName = "string \<times> string"

record MongoDBSpec =
  Members :: int
  Version :: string

record MongoDB =
  mdb_Name :: string
  mdb_Namespace :: string
  mdb_Spec :: MongoDBSpec

text \<open>
  Modelled from the spec: the methods \<^verbatim>\<open>ServiceName\<close> and \<^verbatim>\<open>ConfigMapName\<close> of the
  MongoDB type live in \<^verbatim>\<open>pkg/apis/mongodb/v1\<close>, which is absent.  The spec derives both names
  from the resource name by a fixed convention: the resource \<^verbatim>\<open>my-rs\<close> has the service
  \<^verbatim>\<open>my-rs-service\<close> and the config map \<^verbatim>\<open>my-rs-config\<close>.
\<close>

definition ServiceName :: "MongoDB \<Rightarrow> string" where
  "ServiceName mdb = mdb_Name mdb @ ''-service''"

text \<open>Modelled from the spec: the absent method \<^verbatim>\<open>ConfigMapName\<close>, by the same convention.\<close>

definition ConfigMapName :: "MongoDB \<Rightarrow> string" where
  "ConfigMapName mdb = mdb_Name mdb @ ''-config''"

subsection \<open>Kubernetes objects\<close>

record ObjectMeta =
  om_Name :: string
  om_Namespace :: string
  om_Labels :: "string \<rightharpoonup> string"

record ConfigMap =
  cm_ObjectMeta :: ObjectMeta
  cm_Data :: "string \<rightharpoonup> string"

record ResourceRequirements =
  Limits :: "string \<rightharpoonup> string"
  Requests :: "string \<rightharpoonup> string"

record Container =
  c_Name :: string
  c_Image :: string
  c_Resources :: ResourceRequirements
  c_Command :: "string list"

record PodSpec =
  Containers :: "Container list"

record PodTemplateSpec =
  pts_ObjectMeta :: ObjectMeta
  pts_Spec :: PodSpec

record LabelSelector =
  MatchLabels :: "string \<rightharpoonup> string"

record StatefulSetSpec =
  Replicas :: int
  Selector :: LabelSelector
  Template :: PodTemplateSpec

record StatefulSet =
  sts_ObjectMeta :: ObjectMeta
  sts_Spec :: StatefulSetSpec

text \<open>The zero value of \<^verbatim>\<open>metav1.ObjectMeta\<close>: empty strings and a nil map.\<close>

definition ObjectMeta_zero :: ObjectMeta where
  "ObjectMeta_zero = \<lparr>om_Name = [], om_Namespace = [], om_Labels = Map.empty\<rparr>"

datatype k8s_object =
    ConfigMapObj ConfigMap
  | StatefulSetObj StatefulSet

datatype kind = KindConfigMap | KindStatefulSet

fun object_key :: "k8s_object \<Rightarrow> kind \<times> string \<times> string" where
  "object_key (ConfigMapObj cm) =
     (KindConfigMap, om_Namespace (cm_ObjectMeta cm), om_Name (cm_ObjectMeta cm))"
| "object_key (StatefulSetObj sts) =
     (KindStatefulSet, om_Namespace (sts_ObjectMeta sts), om_Name (sts_ObjectMeta sts))"

subsection \<open>Constants of the controller\<close>

definition automationConfigKey :: string where
  "automationConfigKey = ''automation-config''"

definition agentName :: string where
  "agentName = ''mongodb-agent''"

definition agentImageEnvVariable :: string where
  "agentImageEnvVariable = ''AGENT_IMAGE''"

section \<open>The world the controller runs in\<close>

text \<open>
  What \<^verbatim>\<open>Reconcile\<close> does to its surroundings is recorded as a list of events, oldest first:
  log lines, calls of the client and reads of the process environment.
\<close>

datatype event =
    LogInfo string
  | LogWarnf string error
  | LogErrorf string error
  | ClientGet NamespacedName
  | ClientCreateOrUpdate k8s_object
  | Getenv string

text \<open>
  The state outside the controller: the MongoDB resources of the store, the faults the store
  answers a read or a write with, the process environment, the objects written so far and
  the events so far.
\<close>

record world =
  resources :: "NamespacedName \<rightharpoonup> MongoDB"
  read_fault :: "NamespacedName \<rightharpoonup> error"
  upsert_fault :: "k8s_object \<rightharpoonup> error"
  environ :: "string \<rightharpoonup> string"
  objects :: "kind \<times> string \<times> string \<rightharpoonup> k8s_object"
  trace :: "event list"

definition emit :: "event \<Rightarrow> world \<Rightarrow> world" where
  "emit ev w = w\<lparr>trace := trace w @ [ev]\<rparr>"

text \<open>\<^verbatim>\<open>os.Getenv\<close>: the value of the variable, the empty string when it is unset.\<close>

definition os_Getenv :: "world \<Rightarrow> string \<Rightarrow> string \<times> world" where
  "os_Getenv w k =
     ((case environ w k of None \<Rightarrow> [] | Some v \<Rightarrow> v), emit (Getenv k) w)"

text \<open>
  Modelled from the spec: the client of \<^verbatim>\<open>pkg/kube/client\<close> is absent.  The spec gives it
  two operations.  \<^verbatim>\<open>get(identity)\<close> answers with the record, with not-found when the record
  is absent, or with another read failure.  \<^verbatim>\<open>upsert(artifact)\<close> creates the object when it
  is absent and replaces it when it is present, matched by kind, namespace and name, or
  fails and writes nothing.
\<close>

definition get_outcome :: "world \<Rightarrow> NamespacedName \<Rightarrow> error + MongoDB" where
  "get_outcome w nn =
     (case read_fault w nn of
        Some e \<Rightarrow> Inl e
      | None \<Rightarrow> (case resources w nn of None \<Rightarrow> Inl NotFoundError | Some m \<Rightarrow> Inr m))"

text \<open>Modelled from the spec: the absent \<^verbatim>\<open>Get\<close> of the client; the call is recorded.\<close>

definition client_Get :: "world \<Rightarrow> NamespacedName \<Rightarrow> (error + MongoDB) \<times> world" where
  "client_Get w nn = (get_outcome w nn, emit (ClientGet nn) w)"

text \<open>
  Modelled from the spec: the absent \<^verbatim>\<open>CreateOrUpdate\<close> of the client; the call is
  recorded, and the object is stored under its key unless the store answers with a fault.
\<close>

definition client_CreateOrUpdate :: "world \<Rightarrow> k8s_object \<Rightarrow> error option \<times> world" where
  "client_CreateOrUpdate w obj =
     (let w' = emit (ClientCreateOrUpdate obj) w in
      case upsert_fault w obj of
        Some e \<Rightarrow> (Some e, w')
      | None \<Rightarrow> (None, w'\<lparr>objects := (objects w')(object_key obj \<mapsto> obj)\<rparr>))"

section \<open>Builders of the absent packages\<close>

subsection \<open>The automation config\<close>

text \<open>
  Modelled from the spec: the package \<^verbatim>\<open>pkg/automationconfig\<close> is absent.  The spec's
  automation document has a topology kind, the cluster name, the fully-qualified domain, the
  member count, the database version and a config-generation counter; the builder starts
  from zero values, each setter stores one field and \<^verbatim>\<open>Build\<close> copies the fields into the
  document.  The topology kind of a replica set is written \<^verbatim>\<open>replica-set\<close>.
\<close>

type_synonym Topology = string

definition ReplicaSetTopology :: Topology where
  "ReplicaSetTopology = ''replica-set''"

record AutomationConfig =
  ac_Topology :: Topology
  ac_Name :: string
  ac_Domain :: string
  ac_Members :: int
  ac_MongoDBVersion :: string
  ac_Version :: int

record ac_builder =
  b_topology :: Topology
  b_name :: string
  b_domain :: string
  b_members :: int
  b_mongodbVersion :: string
  b_version :: int

definition ac_NewBuilder :: ac_builder where
  "ac_NewBuilder = \<lparr>b_topology = [], b_name = [], b_domain = [], b_members = 0,
     b_mongodbVersion = [], b_version = 0\<rparr>"

definition ac_SetTopology :: "Topology \<Rightarrow> ac_builder \<Rightarrow> ac_builder" where
  "ac_SetTopology t b = b\<lparr>b_topology := t\<rparr>"

definition ac_SetName :: "string \<Rightarrow> ac_builder \<Rightarrow> ac_builder" where
  "ac_SetName n b = b\<lparr>b_name := n\<rparr>"

definition ac_SetDomain :: "string \<Rightarrow> ac_builder \<Rightarrow> ac_builder" where
  "ac_SetDomain d b = b\<lparr>b_domain := d\<rparr>"

definition ac_SetMembers :: "int \<Rightarrow> ac_builder \<Rightarrow> ac_builder" where
  "ac_SetMembers m b = b\<lparr>b_members := m\<rparr>"

definition ac_SetMongoDBVersion :: "string \<Rightarrow> ac_builder \<Rightarrow> ac_builder" where
  "ac_SetMongoDBVersion v b = b\<lparr>b_mongodbVersion := v\<rparr>"

definition ac_SetAutomationConfigVersion :: "int \<Rightarrow> ac_builder \<Rightarrow> ac_builder" where
  "ac_SetAutomationConfigVersion v b = b\<lparr>b_version := v\<rparr>"

text \<open>
  Modelled from the spec: the absent \<^verbatim>\<open>Build\<close> of the automation config builder; the
  document holds what the setters stored.
\<close>

definition ac_Build :: "ac_builder \<Rightarrow> AutomationConfig" where
  "ac_Build b = \<lparr>ac_Topology = b_topology b, ac_Name = b_name b, ac_Domain = b_domain b,
     ac_Members = b_members b, ac_MongoDBVersion = b_mongodbVersion b,
     ac_Version = b_version b\<rparr>"

subsection \<open>The config map\<close>

text \<open>
  Modelled from the spec: the package \<^verbatim>\<open>pkg/kube/configmap\<close> is absent.  The spec's config
  artifact has a name, a namespace and key-value entries; \<^verbatim>\<open>SetField\<close> adds one entry and
  \<^verbatim>\<open>Build\<close> makes the object.
\<close>

record cm_builder =
  cb_name :: string
  cb_namespace :: string
  cb_data :: "string \<rightharpoonup> string"

definition cm_Builder :: cm_builder where
  "cm_Builder = \<lparr>cb_name = [], cb_namespace = [], cb_data = Map.empty\<rparr>"

definition cm_SetName :: "string \<Rightarrow> cm_builder \<Rightarrow> cm_builder" where
  "cm_SetName n b = b\<lparr>cb_name := n\<rparr>"

definition cm_SetNamespace :: "string \<Rightarrow> cm_builder \<Rightarrow> cm_builder" where
  "cm_SetNamespace n b = b\<lparr>cb_namespace := n\<rparr>"

definition cm_SetField :: "string \<Rightarrow> string \<Rightarrow> cm_builder \<Rightarrow> cm_builder" where
  "cm_SetField k v b = b\<lparr>cb_data := (cb_data b)(k \<mapsto> v)\<rparr>"

text \<open>
  Modelled from the spec: the absent \<^verbatim>\<open>Build\<close> of the config map builder; the object has
  the name, the namespace and the entries the setters stored.
\<close>

definition cm_Build :: "cm_builder \<Rightarrow> ConfigMap" where
  "cm_Build b =
     \<lparr>cm_ObjectMeta = ObjectMeta_zero\<lparr>om_Name := cb_name b, om_Namespace := cb_namespace b\<rparr>,
      cm_Data = cb_data b\<rparr>"

subsection \<open>The stateful set\<close>

text \<open>
  Modelled from the spec: the package \<^verbatim>\<open>pkg/kube/statefulset\<close> is absent.  The spec's
  workload descriptor has a name, a namespace, a label set, a replica count, the selector's
  match-labels and a pod template.  \<^verbatim>\<open>Build\<close> rejects an invalid replica count with a
  build error; the spec's valid member counts are those of at least one, and zero is its
  example of an invalid one.
\<close>

record sts_builder =
  sb_name :: string
  sb_namespace :: string
  sb_replicas :: int
  sb_labels :: "string \<rightharpoonup> string"
  sb_matchLabels :: "string \<rightharpoonup> string"
  sb_podTemplateSpec :: PodTemplateSpec

definition sts_NewBuilder :: sts_builder where
  "sts_NewBuilder = \<lparr>sb_name = [], sb_namespace = [], sb_replicas = 0,
     sb_labels = Map.empty, sb_matchLabels = Map.empty,
     sb_podTemplateSpec = \<lparr>pts_ObjectMeta = ObjectMeta_zero, pts_Spec = \<lparr>Containers = []\<rparr>\<rparr>\<rparr>"

definition sts_SetPodTemplateSpec :: "PodTemplateSpec \<Rightarrow> sts_builder \<Rightarrow> sts_builder" where
  "sts_SetPodTemplateSpec t b = b\<lparr>sb_podTemplateSpec := t\<rparr>"

definition sts_SetNamespace :: "string \<Rightarrow> sts_builder \<Rightarrow> sts_builder" where
  "sts_SetNamespace n b = b\<lparr>sb_namespace := n\<rparr>"

definition sts_SetName :: "string \<Rightarrow> sts_builder \<Rightarrow> sts_builder" where
  "sts_SetName n b = b\<lparr>sb_name := n\<rparr>"

definition sts_SetReplicas :: "int \<Rightarrow> sts_builder \<Rightarrow> sts_builder" where
  "sts_SetReplicas r b = b\<lparr>sb_replicas := r\<rparr>"

definition sts_SetLabels :: "(string \<rightharpoonup> string) \<Rightarrow> sts_builder \<Rightarrow> sts_builder" where
  "sts_SetLabels l b = b\<lparr>sb_labels := l\<rparr>"

definition sts_SetMatchLabels :: "(string \<rightharpoonup> string) \<Rightarrow> sts_builder \<Rightarrow> sts_builder" where
  "sts_SetMatchLabels l b = b\<lparr>sb_matchLabels := l\<rparr>"

text \<open>
  Modelled from the spec: the absent \<^verbatim>\<open>Build\<close> of the stateful set builder; a replica
  count below one is rejected, otherwise the object holds what the setters stored.
\<close>

definition sts_Build :: "sts_builder \<Rightarrow> error + StatefulSet" where
  "sts_Build b =
     (if sb_replicas b < 1 then Inl (BuildError ''invalid replica count'')
      else Inr \<lparr>sts_ObjectMeta = \<lparr>om_Name = sb_name b, om_Namespace = sb_namespace b,
                                  om_Labels = sb_labels b\<rparr>,
                sts_Spec = \<lparr>Replicas = sb_replicas b,
                            Selector = \<lparr>MatchLabels = sb_matchLabels b\<rparr>,
                            Template = sb_podTemplateSpec b\<rparr>\<rparr>)"

section \<open>The controller\<close>

subsection \<open>Formatting\<close>

text \<open>
  \<^verbatim>\<open>fmt.Sprintf\<close> on string operands, for formats whose verbs are \<^verbatim>\<open>%s\<close> and \<^verbatim>\<open>%%\<close>: a
  verb without an operand prints \<^verbatim>\<open>%!s(MISSING)\<close>, operands left over are listed after
  \<^verbatim>\<open>%!(EXTRA\<close>, a percent sign that ends the format prints \<^verbatim>\<open>%!(NOVERB)\<close>.  Any other verb
  is outside this fragment and the result is \<^const>\<open>None\<close>.
\<close>

fun extra_operands :: "string list \<Rightarrow> string" where
  "extra_operands [] = []"
| "extra_operands [a] = ''string='' @ a"
| "extra_operands (a # b # as) = ''string='' @ a @ '', '' @ extra_operands (b # as)"

fun Sprintf :: "string \<Rightarrow> string list \<Rightarrow> string option" where
  "Sprintf [] [] = Some []"
| "Sprintf [] (a # as) = Some (''%!(EXTRA '' @ extra_operands (a # as) @ '')'')"
| "Sprintf (c # fs) args =
     (if c = CHR ''%'' then
        (case fs of
           [] \<Rightarrow> map_option ((@) ''%!(NOVERB)'') (Sprintf [] args)
         | v # fs' \<Rightarrow>
             if v = CHR ''%'' then map_option ((#) CHR ''%'') (Sprintf fs' args)
             else if v = CHR ''s'' then
               (case args of
                  [] \<Rightarrow> map_option ((@) ''%!s(MISSING)'') (Sprintf fs' [])
                | a # as \<Rightarrow> map_option ((@) a) (Sprintf fs' as))
             else None)
      else map_option ((#) c) (Sprintf fs args))"

subsection \<open>getDomain\<close>

definition getDomain :: "string \<Rightarrow> string \<Rightarrow> string \<Rightarrow> string" where
  "getDomain service namespace clusterName =
     (let clusterName = (if clusterName = [] then ''cluster.local'' else clusterName)
      in the (Sprintf ''%s.%s.svc.%s'' [service, namespace, clusterName]))"

subsection \<open>buildAutomationConfig and buildAutomationConfigConfigMap\<close>

definition buildAutomationConfig :: "MongoDB \<Rightarrow> AutomationConfig" where
  "buildAutomationConfig mdb =
     (let domain = getDomain (ServiceName mdb) (mdb_Namespace mdb) (mdb_Name mdb)
      in ac_Build
           (ac_SetAutomationConfigVersion 1
           (ac_SetMongoDBVersion (Version (mdb_Spec mdb))
           (ac_SetMembers (Members (mdb_Spec mdb))
           (ac_SetDomain domain
           (ac_SetName (mdb_Name mdb)
           (ac_SetTopology ReplicaSetTopology ac_NewBuilder)))))))"

text \<open>
  \<^verbatim>\<open>json.Marshal\<close> belongs to Go's library and the field tags of the automation config to the
  absent package, so the serialiser is the parameter \<open>marshal\<close>: a function of the document,
  as Go's encoder is, that gives the text or an error.
\<close>

definition buildAutomationConfigConfigMap ::
    "(AutomationConfig \<Rightarrow> error + string) \<Rightarrow> MongoDB \<Rightarrow> error + ConfigMap" where
  "buildAutomationConfigConfigMap marshal mdb =
     (let ac = buildAutomationConfig mdb in
      case marshal ac of
        Inl err \<Rightarrow> Inl err
      | Inr acBytes \<Rightarrow>
          Inr (cm_Build
                (cm_SetField automationConfigKey acBytes
                (cm_SetNamespace (mdb_Namespace mdb)
                (cm_SetName (ConfigMapName mdb) cm_Builder)))))"

subsection \<open>ensureAutomationConfig\<close>

definition ensureAutomationConfig ::
    "(AutomationConfig \<Rightarrow> error + string) \<Rightarrow> world \<Rightarrow> MongoDB \<Rightarrow> error option \<times> world" where
  "ensureAutomationConfig marshal w mdb =
     (case buildAutomationConfigConfigMap marshal mdb of
        Inl err \<Rightarrow> (Some err, w)
      | Inr cm \<Rightarrow>
          (case client_CreateOrUpdate w (ConfigMapObj cm) of
             (Some err, w') \<Rightarrow> (Some err, w')
           | (None, w') \<Rightarrow> (None, w')))"

subsection \<open>buildStatefulSet\<close>

text \<open>
  \<^verbatim>\<open>resourcerequirements.Defaults()\<close> is a fixed value of an absent package: the parameter
  \<open>defaults\<close>.  The image is read from the process environment, which is the one effect of
  this function.
\<close>

definition buildStatefulSet ::
    "ResourceRequirements \<Rightarrow> world \<Rightarrow> MongoDB \<Rightarrow> (error + StatefulSet) \<times> world" where
  "buildStatefulSet defaults w mdb =
     (let labels = [''dummy'' \<mapsto> ''label''];
          (image, w') = os_Getenv w agentImageEnvVariable;
          agentContainer = \<lparr>c_Name = agentName, c_Image = image, c_Resources = defaults,
            c_Command = [''agent/mongodb-agent'',
                         ''-cluster=/var/lib/automation/config/automation-config.json'']\<rparr>;
          podSpecTemplate = \<lparr>pts_ObjectMeta = ObjectMeta_zero\<lparr>om_Labels := labels\<rparr>,
            pts_Spec = \<lparr>Containers = [agentContainer]\<rparr>\<rparr>
      in (sts_Build
            (sts_SetMatchLabels labels
            (sts_SetLabels labels
            (sts_SetReplicas (Members (mdb_Spec mdb))
            (sts_SetName (mdb_Name mdb)
            (sts_SetNamespace (mdb_Namespace mdb)
            (sts_SetPodTemplateSpec podSpecTemplate sts_NewBuilder)))))), w'))"

subsection \<open>Reconcile\<close>

definition Reconcile ::
    "(AutomationConfig \<Rightarrow> error + string) \<Rightarrow> ResourceRequirements \<Rightarrow> world \<Rightarrow> NamespacedName
       \<Rightarrow> (Result \<times> error option) \<times> world" where
  "Reconcile marshal defaults w0 request =
     (let w1 = emit (LogInfo ''Reconciling MongoDB'') w0 in
      case client_Get w1 request of
        (Inl err, w2) \<Rightarrow>
          if IsNotFound err then ((Result_zero, None), w2)
          else ((Result_zero, Some err),
                emit (LogErrorf ''error reconciling MongoDB resource: %s'' err) w2)
      | (Inr mdb, w2) \<Rightarrow>
          (case ensureAutomationConfig marshal w2 mdb of
             (Some err, w3) \<Rightarrow>
               ((Result_zero, Some err), emit (LogWarnf ''failed creating config map: %s'' err) w3)
           | (None, w3) \<Rightarrow>
               (case buildStatefulSet defaults w3 mdb of
                  (Inl err, w4) \<Rightarrow>
                    ((Result_zero, None), emit (LogWarnf ''error building StatefulSet: %s'' err) w4)
                | (Inr sts, w4) \<Rightarrow>
                    (case client_CreateOrUpdate w4 (StatefulSetObj sts) of
                       (Some err, w5) \<Rightarrow>
                         ((Result_zero, Some err),
                          emit (LogWarnf ''error creating/updating StatefulSet: %s'' err) w5)
                     | (None, w5) \<Rightarrow>
                         ((Result_zero, None),
                          emit (LogInfo ''Successfully finished reconciliation'') w5)))))"

subsection \<open>Reading a trace\<close>

text \<open>The objects handed to create-or-update in a list of events, in order.\<close>

fun upserts :: "event list \<Rightarrow> k8s_object list" where
  "upserts [] = []"
| "upserts (ClientCreateOrUpdate obj # evs) = obj # upserts evs"
| "upserts (LogInfo m # evs) = upserts evs"
| "upserts (LogWarnf m e # evs) = upserts evs"
| "upserts (LogErrorf m e # evs) = upserts evs"
| "upserts (ClientGet nn # evs) = upserts evs"
| "upserts (Getenv k # evs) = upserts evs"

text \<open>The events a step added: the trace after it without the trace before it.\<close>

definition new_events :: "world \<Rightarrow> world \<Rightarrow> event list" where
  "new_events w w' = drop (length (trace w)) (trace w')"

subsection \<open>Derived notions\<close>

text \<open>
  The two builders that Reconcile runs, side by side: the config map and the stateful set
  that one reconciliation of \<open>d\<close> hands to the client.
\<close>

definition builder_pipeline ::
    "(AutomationConfig \<Rightarrow> error + string) \<Rightarrow> ResourceRequirements \<Rightarrow> world \<Rightarrow> MongoDB
       \<Rightarrow> (error + ConfigMap) \<times> (error + StatefulSet)" where
  "builder_pipeline marshal defaults w d =
     (buildAutomationConfigConfigMap marshal d, fst (buildStatefulSet defaults w d))"

text \<open>The world after Reconcile has read the resource and written the config map.\<close>

definition config_ensured :: "world \<Rightarrow> NamespacedName \<Rightarrow> ConfigMap \<Rightarrow> world" where
  "config_ensured w request cm =
     (emit (ClientCreateOrUpdate (ConfigMapObj cm))
        (emit (ClientGet request) (emit (LogInfo ''Reconciling MongoDB'') w)))
     \<lparr>objects := (objects w)(object_key (ConfigMapObj cm) \<mapsto> ConfigMapObj cm)\<rparr>"

section \<open>Example inputs\<close>

text \<open>Scenario A of the spec: three members of version 4.2.0, named my-rs in ns1.\<close>

definition scenarioA :: MongoDB where
  "scenarioA = \<lparr>mdb_Name = ''my-rs'', mdb_Namespace = ''ns1'',
     mdb_Spec = \<lparr>Members = 3, Version = ''4.2.0''\<rparr>\<rparr>"

text \<open>Scenario D of the spec: the same resource with no members.\<close>

definition scenarioD :: MongoDB where
  "scenarioD = \<lparr>mdb_Name = ''my-rs'', mdb_Namespace = ''ns1'',
     mdb_Spec = \<lparr>Members = 0, Version = ''4.2.0''\<rparr>\<rparr>"

text \<open>A serialiser and resource defaults for the examples.\<close>

definition example_marshal :: "AutomationConfig \<Rightarrow> error + string" where
  "example_marshal ac =
     Inr (ac_Topology ac @ '' '' @ ac_Name ac @ '' '' @ ac_Domain ac @ '' '' @ ac_MongoDBVersion ac)"

definition example_defaults :: ResourceRequirements where
  "example_defaults = \<lparr>Limits = [''cpu'' \<mapsto> ''1''], Requests = [''cpu'' \<mapsto> ''500m'']\<rparr>"

text \<open>The config map of the resource my-rs in ns1 with the serialised document \<open>text\<close>.\<close>

definition example_config_map :: "string \<Rightarrow> ConfigMap" where
  "example_config_map text =
     \<lparr>cm_ObjectMeta = \<lparr>om_Name = ''my-rs-config'', om_Namespace = ''ns1'',
        om_Labels = Map.empty\<rparr>,
      cm_Data = [''automation-config'' \<mapsto> text]\<rparr>"

text \<open>A store that holds scenario A and answers every call, with the agent image set.\<close>

definition world_A :: world where
  "world_A = \<lparr>resources = [(''ns1'', ''my-rs'') \<mapsto> scenarioA], read_fault = Map.empty,
     upsert_fault = Map.empty, environ = [''AGENT_IMAGE'' \<mapsto> ''quay.io/mongodb/agent''],
     objects = Map.empty, trace = []\<rparr>"

text \<open>The same store when every read fails, and when every write fails.\<close>

definition world_R :: world where
  "world_R = world_A\<lparr>read_fault := (\<lambda>nn. Some (ReadError ''timeout''))\<rparr>"

definition world_C :: world where
  "world_C = world_A\<lparr>upsert_fault := (\<lambda>obj. Some (UpsertError ''unavailable''))\<rparr>"

text \<open>A store that holds scenario D, and a process without the agent image variable.\<close>

definition world_D :: world where
  "world_D = world_A\<lparr>resources := [(''ns1'', ''my-rs'') \<mapsto> scenarioD], environ := Map.empty\<rparr>"

section \<open>Properties\<close>

subsection \<open>Unfolding the builders and the client\<close>

lemmas ac_defs = ac_Build_def ac_SetAutomationConfigVersion_def ac_SetMongoDBVersion_def
  ac_SetMembers_def ac_SetDomain_def ac_SetName_def ac_SetTopology_def ac_NewBuilder_def

lemmas cm_defs = cm_Build_def cm_SetField_def cm_SetNamespace_def cm_SetName_def cm_Builder_def
  ObjectMeta_zero_def

lemmas sts_defs = sts_Build_def sts_SetMatchLabels_def sts_SetLabels_def sts_SetReplicas_def
  sts_SetName_def sts_SetNamespace_def sts_SetPodTemplateSpec_def sts_NewBuilder_def

lemmas example_defs = scenarioA_def scenarioD_def example_marshal_def example_defaults_def
  world_A_def world_R_def world_C_def world_D_def

lemma buildAutomationConfig_eq:
  "buildAutomationConfig d =
     \<lparr>ac_Topology = ReplicaSetTopology, ac_Name = mdb_Name d,
      ac_Domain = getDomain (ServiceName d) (mdb_Namespace d) (mdb_Name d),
      ac_Members = Members (mdb_Spec d), ac_MongoDBVersion = Version (mdb_Spec d),
      ac_Version = 1\<rparr>"
  by (simp add: buildAutomationConfig_def ac_defs)

lemma buildStatefulSet_fst:
  "fst (buildStatefulSet defaults w d) =
     (if Members (mdb_Spec d) < 1 then Inl (BuildError ''invalid replica count'')
      else Inr \<lparr>sts_ObjectMeta = \<lparr>om_Name = mdb_Name d, om_Namespace = mdb_Namespace d,
                   om_Labels = [''dummy'' \<mapsto> ''label'']\<rparr>,
                sts_Spec = \<lparr>Replicas = Members (mdb_Spec d),
                   Selector = \<lparr>MatchLabels = [''dummy'' \<mapsto> ''label'']\<rparr>,
                   Template = \<lparr>pts_ObjectMeta = \<lparr>om_Name = [], om_Namespace = [],
                                   om_Labels = [''dummy'' \<mapsto> ''label'']\<rparr>,
                     pts_Spec = \<lparr>Containers = [\<lparr>c_Name = ''mongodb-agent'',
                        c_Image = (case environ w ''AGENT_IMAGE'' of None \<Rightarrow> [] | Some v \<Rightarrow> v),
                        c_Resources = defaults,
                        c_Command = [''agent/mongodb-agent'',
                          ''-cluster=/var/lib/automation/config/automation-config.json'']\<rparr>]\<rparr>\<rparr>\<rparr>\<rparr>)"
  by (simp add: buildStatefulSet_def os_Getenv_def sts_defs ObjectMeta_zero_def agentName_def
        agentImageEnvVariable_def Let_def)

lemma buildStatefulSet_snd:
  "snd (buildStatefulSet defaults w d) = emit (Getenv agentImageEnvVariable) w"
  by (simp add: buildStatefulSet_def os_Getenv_def Let_def)

lemma emit_fields:
  "trace (emit ev w) = trace w @ [ev]"
  "objects (emit ev w) = objects w"
  "environ (emit ev w) = environ w"
  "resources (emit ev w) = resources w"
  "read_fault (emit ev w) = read_fault w"
  "upsert_fault (emit ev w) = upsert_fault w"
  by (simp_all add: emit_def)

lemma get_outcome_emit: "get_outcome (emit ev w) nn = get_outcome w nn"
  by (simp add: get_outcome_def emit_fields split: option.splits)

lemma client_CreateOrUpdate_ok:
  "upsert_fault w obj = None \<Longrightarrow>
   client_CreateOrUpdate w obj =
     (None, (emit (ClientCreateOrUpdate obj) w)\<lparr>objects := (objects w)(object_key obj \<mapsto> obj)\<rparr>)"
  by (simp add: client_CreateOrUpdate_def Let_def emit_fields)

lemma client_CreateOrUpdate_fails:
  "upsert_fault w obj = Some e \<Longrightarrow>
   client_CreateOrUpdate w obj = (Some e, emit (ClientCreateOrUpdate obj) w)"
  by (simp add: client_CreateOrUpdate_def Let_def)

subsection \<open>The paths of Reconcile\<close>

lemma buildStatefulSet_pair:
  "buildStatefulSet defaults w d =
     (fst (buildStatefulSet defaults w d), emit (Getenv agentImageEnvVariable) w)"
  by (metis buildStatefulSet_snd prod.collapse)

lemma config_ensured_fields:
  "trace (config_ensured w request cm) =
     trace w @ [LogInfo ''Reconciling MongoDB'', ClientGet request,
                ClientCreateOrUpdate (ConfigMapObj cm)]"
  "objects (config_ensured w request cm) =
     (objects w)(object_key (ConfigMapObj cm) \<mapsto> ConfigMapObj cm)"
  "environ (config_ensured w request cm) = environ w"
  "resources (config_ensured w request cm) = resources w"
  "read_fault (config_ensured w request cm) = read_fault w"
  "upsert_fault (config_ensured w request cm) = upsert_fault w"
  by (simp_all add: config_ensured_def emit_fields)

lemma Reconcile_read_failed:
  assumes "get_outcome w request = Inl e"
  shows "Reconcile marshal defaults w request =
     (if IsNotFound e
      then ((Result_zero, None), emit (ClientGet request) (emit (LogInfo ''Reconciling MongoDB'') w))
      else ((Result_zero, Some e),
            emit (LogErrorf ''error reconciling MongoDB resource: %s'' e)
              (emit (ClientGet request) (emit (LogInfo ''Reconciling MongoDB'') w))))"
  using assms by (simp add: Reconcile_def client_Get_def get_outcome_emit Let_def)

lemma Reconcile_marshal_failed:
  assumes "get_outcome w request = Inr mdb"
    and "buildAutomationConfigConfigMap marshal mdb = Inl e"
  shows "Reconcile marshal defaults w request =
     ((Result_zero, Some e),
      emit (LogWarnf ''failed creating config map: %s'' e)
        (emit (ClientGet request) (emit (LogInfo ''Reconciling MongoDB'') w)))"
  using assms
  by (simp add: Reconcile_def client_Get_def get_outcome_emit Let_def ensureAutomationConfig_def)

lemma Reconcile_config_upsert_failed:
  assumes "get_outcome w request = Inr mdb"
    and "buildAutomationConfigConfigMap marshal mdb = Inr cm"
    and "upsert_fault w (ConfigMapObj cm) = Some e"
  shows "Reconcile marshal defaults w request =
     ((Result_zero, Some e),
      emit (LogWarnf ''failed creating config map: %s'' e)
        (emit (ClientCreateOrUpdate (ConfigMapObj cm))
          (emit (ClientGet request) (emit (LogInfo ''Reconciling MongoDB'') w))))"
  using assms
  by (simp add: Reconcile_def client_Get_def get_outcome_emit Let_def ensureAutomationConfig_def
        client_CreateOrUpdate_fails emit_fields)

lemma Reconcile_after_config:
  assumes "get_outcome w request = Inr mdb"
    and "buildAutomationConfigConfigMap marshal mdb = Inr cm"
    and "upsert_fault w (ConfigMapObj cm) = None"
  shows "Reconcile marshal defaults w request =
     (let w4 = emit (Getenv agentImageEnvVariable) (config_ensured w request cm) in
      case fst (buildStatefulSet defaults w mdb) of
        Inl err \<Rightarrow> ((Result_zero, None), emit (LogWarnf ''error building StatefulSet: %s'' err) w4)
      | Inr sts \<Rightarrow>
          (case upsert_fault w (StatefulSetObj sts) of
             Some err \<Rightarrow>
               ((Result_zero, Some err),
                emit (LogWarnf ''error creating/updating StatefulSet: %s'' err)
                  (emit (ClientCreateOrUpdate (StatefulSetObj sts)) w4))
           | None \<Rightarrow>
               ((Result_zero, None),
                emit (LogInfo ''Successfully finished reconciliation'')
                  ((emit (ClientCreateOrUpdate (StatefulSetObj sts)) w4)
                   \<lparr>objects :=
                      (objects w4)(object_key (StatefulSetObj sts) \<mapsto> StatefulSetObj sts)\<rparr>))))"
proof -
  let ?w2 = "emit (ClientGet request) (emit (LogInfo ''Reconciling MongoDB'') w)"
  let ?w3 = "config_ensured w request cm"
  let ?w4 = "emit (Getenv agentImageEnvVariable) ?w3"
  have ens: "ensureAutomationConfig marshal ?w2 mdb = (None, ?w3)"
    using assms(2,3)
    by (simp add: ensureAutomationConfig_def client_CreateOrUpdate_ok emit_fields
          config_ensured_def)
  have "fst (buildStatefulSet defaults ?w3 mdb) = fst (buildStatefulSet defaults w mdb)"
    by (simp add: buildStatefulSet_fst config_ensured_fields)
  then have bld: "buildStatefulSet defaults ?w3 mdb = (fst (buildStatefulSet defaults w mdb), ?w4)"
    using buildStatefulSet_pair [of defaults ?w3 mdb] by simp
  have up: "\<And>sts. client_CreateOrUpdate ?w4 (StatefulSetObj sts) =
     (case upsert_fault w (StatefulSetObj sts) of
        Some err \<Rightarrow> (Some err, emit (ClientCreateOrUpdate (StatefulSetObj sts)) ?w4)
      | None \<Rightarrow> (None, (emit (ClientCreateOrUpdate (StatefulSetObj sts)) ?w4)
           \<lparr>objects := (objects ?w4)(object_key (StatefulSetObj sts) \<mapsto> StatefulSetObj sts)\<rparr>))"
    by (simp add: client_CreateOrUpdate_def Let_def emit_fields config_ensured_fields
          split: option.splits)
  show ?thesis
    using assms(1)
    by (simp add: Reconcile_def client_Get_def get_outcome_emit Let_def ens bld up
          split: sum.splits option.splits)
qed

subsection \<open>What Reconcile leaves alone, and what it depends on\<close>

lemma get_outcome_cong:
  "resources w' = resources w \<Longrightarrow> read_fault w' = read_fault w \<Longrightarrow>
   get_outcome w' nn = get_outcome w nn"
  by (simp add: get_outcome_def split: option.splits)

lemma Reconcile_surroundings:
  "resources (snd (Reconcile marshal defaults w rq)) = resources w \<and>
   read_fault (snd (Reconcile marshal defaults w rq)) = read_fault w \<and>
   upsert_fault (snd (Reconcile marshal defaults w rq)) = upsert_fault w \<and>
   environ (snd (Reconcile marshal defaults w rq)) = environ w"
proof (cases "get_outcome w rq")
  case (Inl e)
  show ?thesis by (simp add: Reconcile_read_failed [OF Inl] emit_fields)
next
  case (Inr mdb)
  show ?thesis
  proof (cases "buildAutomationConfigConfigMap marshal mdb")
    case (Inl e)
    show ?thesis by (simp add: Reconcile_marshal_failed [OF Inr Inl] emit_fields)
  next
    case cm: (Inr cm)
    show ?thesis
    proof (cases "upsert_fault w (ConfigMapObj cm)")
      case (Some e)
      show ?thesis by (simp add: Reconcile_config_upsert_failed [OF Inr cm Some] emit_fields)
    next
      case None
      show ?thesis
        by (simp add: Reconcile_after_config [OF Inr cm None] emit_fields config_ensured_fields
              Let_def split: sum.splits option.splits)
    qed
  qed
qed

lemma Reconcile_frame:
  assumes "resources w' = resources w" "read_fault w' = read_fault w"
    "upsert_fault w' = upsert_fault w" "environ w' = environ w"
  shows "fst (Reconcile marshal defaults w' rq) = fst (Reconcile marshal defaults w rq) \<and>
     new_events w' (snd (Reconcile marshal defaults w' rq)) =
       new_events w (snd (Reconcile marshal defaults w rq))"
proof -
  have g: "get_outcome w' rq = get_outcome w rq"
    using assms(1,2) by (rule get_outcome_cong)
  have b: "\<And>d. fst (buildStatefulSet defaults w' d) = fst (buildStatefulSet defaults w d)"
    using assms(4) by (simp add: buildStatefulSet_fst)
  show ?thesis
  proof (cases "get_outcome w rq")
    case (Inl e)
    then have "get_outcome w' rq = Inl e" using g by simp
    then show ?thesis
      by (simp add: Reconcile_read_failed [OF Inl] Reconcile_read_failed [of w' rq e]
            emit_fields new_events_def)
  next
    case (Inr mdb)
    then have g': "get_outcome w' rq = Inr mdb" using g by simp
    show ?thesis
    proof (cases "buildAutomationConfigConfigMap marshal mdb")
      case (Inl e)
      show ?thesis
        by (simp add: Reconcile_marshal_failed [OF Inr Inl] Reconcile_marshal_failed [OF g' Inl]
              emit_fields new_events_def)
    next
      case cm: (Inr cm)
      show ?thesis
      proof (cases "upsert_fault w (ConfigMapObj cm)")
        case (Some e)
        then have u': "upsert_fault w' (ConfigMapObj cm) = Some e" using assms(3) by simp
        show ?thesis
          by (simp add: Reconcile_config_upsert_failed [OF Inr cm Some]
                Reconcile_config_upsert_failed [OF g' cm u'] emit_fields new_events_def)
      next
        case None
        then have u': "upsert_fault w' (ConfigMapObj cm) = None" using assms(3) by simp
        show ?thesis
          by (simp add: Reconcile_after_config [OF Inr cm None]
                Reconcile_after_config [OF g' cm u'] b assms(3)
                emit_fields config_ensured_fields Let_def
                new_events_def split: sum.splits option.splits)
      qed
    qed
  qed
qed

lemma Reconcile_objects:
  "objects (snd (Reconcile marshal defaults w rq)) =
     (case get_outcome w rq of
        Inl e \<Rightarrow> objects w
      | Inr mdb \<Rightarrow>
          (case buildAutomationConfigConfigMap marshal mdb of
             Inl e \<Rightarrow> objects w
           | Inr cm \<Rightarrow>
               (case upsert_fault w (ConfigMapObj cm) of
                  Some e \<Rightarrow> objects w
                | None \<Rightarrow>
                    (case fst (buildStatefulSet defaults w mdb) of
                       Inl e \<Rightarrow> (objects w)(object_key (ConfigMapObj cm) \<mapsto> ConfigMapObj cm)
                     | Inr sts \<Rightarrow>
                         (case upsert_fault w (StatefulSetObj sts) of
                            Some e \<Rightarrow>
                              (objects w)(object_key (ConfigMapObj cm) \<mapsto> ConfigMapObj cm)
                          | None \<Rightarrow>
                              (objects w)(object_key (ConfigMapObj cm) \<mapsto> ConfigMapObj cm,
                                object_key (StatefulSetObj sts) \<mapsto> StatefulSetObj sts))))))"
proof (cases "get_outcome w rq")
  case (Inl e)
  show ?thesis by (simp add: Inl Reconcile_read_failed [OF Inl] emit_fields)
next
  case (Inr mdb)
  show ?thesis
  proof (cases "buildAutomationConfigConfigMap marshal mdb")
    case (Inl e)
    show ?thesis by (simp add: Inr Inl Reconcile_marshal_failed [OF Inr Inl] emit_fields)
  next
    case cm: (Inr cm)
    show ?thesis
    proof (cases "upsert_fault w (ConfigMapObj cm)")
      case (Some e)
      show ?thesis
        by (simp add: Inr cm Some Reconcile_config_upsert_failed [OF Inr cm Some] emit_fields)
    next
      case None
      show ?thesis
        by (simp add: Inr cm None Reconcile_after_config [OF Inr cm None] emit_fields
              config_ensured_fields Let_def split: sum.splits option.splits)
    qed
  qed
qed

lemma Reconcile_objects_again:
  "objects (snd (Reconcile marshal defaults (snd (Reconcile marshal defaults w rq)) rq)) =
   objects (snd (Reconcile marshal defaults w rq))"
proof -
  let ?w1 = "snd (Reconcile marshal defaults w rq)"
  have s: "resources ?w1 = resources w" "read_fault ?w1 = read_fault w"
    "upsert_fault ?w1 = upsert_fault w" "environ ?w1 = environ w"
    using Reconcile_surroundings [of marshal defaults w rq] by simp_all
  have g: "get_outcome ?w1 rq = get_outcome w rq"
    using s(1,2) by (rule get_outcome_cong)
  have b: "\<And>d. fst (buildStatefulSet defaults ?w1 d) = fst (buildStatefulSet defaults w d)"
    using s(4) by (simp add: buildStatefulSet_fst)
  show ?thesis
    unfolding Reconcile_objects [of marshal defaults ?w1 rq] g b s(3)
    unfolding Reconcile_objects [of marshal defaults w rq]
    by (simp split: sum.splits option.splits)
qed

subsection \<open>The example store\<close>

lemma example_config_A:
  "buildAutomationConfigConfigMap example_marshal scenarioA =
     Inr (example_config_map ''replica-set my-rs my-rs-service.ns1.svc.my-rs 4.2.0'')"
  by (simp add: buildAutomationConfigConfigMap_def buildAutomationConfig_eq example_defs
        getDomain_def ServiceName_def ConfigMapName_def ReplicaSetTopology_def cm_defs
        automationConfigKey_def example_config_map_def Let_def)

lemma example_config_D:
  "buildAutomationConfigConfigMap example_marshal scenarioD =
     Inr (example_config_map ''replica-set my-rs my-rs-service.ns1.svc.my-rs 4.2.0'')"
  by (simp add: buildAutomationConfigConfigMap_def buildAutomationConfig_eq example_defs
        getDomain_def ServiceName_def ConfigMapName_def ReplicaSetTopology_def cm_defs
        automationConfigKey_def example_config_map_def Let_def)

subsection \<open>getDomain\<close>

text \<open>
  Claim C7.  For all service names and namespaces, the domain of an empty cluster domain is
  the domain of \<^verbatim>\<open>cluster.local\<close>; in general the result is the service name, the namespace,
  \<^verbatim>\<open>svc\<close> and the cluster domain joined by dots, with \<^verbatim>\<open>cluster.local\<close> in place of an empty
  cluster domain; and the formatting never fails: on every input it yields exactly this
  string.
\<close>

theorem getDomain_format:
  "getDomain s n [] = getDomain s n ''cluster.local'' \<and>
   getDomain s n c = s @ ''.'' @ n @ ''.svc.'' @ (if c = [] then ''cluster.local'' else c) \<and>
   Sprintf ''%s.%s.svc.%s'' [s, n, if c = [] then ''cluster.local'' else c] =
     Some (getDomain s n c)"
  by (simp add: getDomain_def Let_def)

subsection \<open>Reading the resource\<close>

text \<open>
  Claim C4.  When the read of the resource answers not-found, Reconcile returns the zero
  result and no error, so nothing is requeued; it has only logged its first line and called
  the read, it made no create-or-update call and the stored objects are unchanged; the
  serialiser and the resource defaults, which only the two builders use, have no influence
  on the outcome.  When the read fails in any other way, Reconcile returns that error, which
  requeues the request.
\<close>

theorem Reconcile_not_found:
  "(get_outcome w request = Inl e \<and> IsNotFound e \<longrightarrow>
      fst (Reconcile marshal defaults w request) = (Result_zero, None) \<and>
      \<not> requeue_requested (fst (Reconcile marshal defaults w request)) \<and>
      new_events w (snd (Reconcile marshal defaults w request)) =
        [LogInfo ''Reconciling MongoDB'', ClientGet request] \<and>
      upserts (new_events w (snd (Reconcile marshal defaults w request))) = [] \<and>
      objects (snd (Reconcile marshal defaults w request)) = objects w \<and>
      Reconcile marshal defaults w request = Reconcile marshal' defaults' w request) \<and>
   (get_outcome w request = Inl e \<and> \<not> IsNotFound e \<longrightarrow>
      fst (Reconcile marshal defaults w request) = (Result_zero, Some e) \<and>
      requeue_requested (fst (Reconcile marshal defaults w request)))"
  by (simp add: Reconcile_read_failed emit_fields new_events_def Result_zero_def)

theorem Reconcile_not_found_witness:
  "get_outcome world_A (''ns1'', ''ghost'') = Inl NotFoundError \<and> IsNotFound NotFoundError \<and>
   fst (Reconcile example_marshal example_defaults world_A (''ns1'', ''ghost'')) = (Result_zero, None) \<and>
   upserts (new_events world_A
     (snd (Reconcile example_marshal example_defaults world_A (''ns1'', ''ghost'')))) = [] \<and>
   get_outcome world_R (''ns1'', ''my-rs'') = Inl (ReadError ''timeout'') \<and>
   \<not> IsNotFound (ReadError ''timeout'') \<and>
   requeue_requested (fst (Reconcile example_marshal example_defaults world_R (''ns1'', ''my-rs'')))"
proof -
  have a: "get_outcome world_A (''ns1'', ''ghost'') = Inl NotFoundError"
    by (simp add: get_outcome_def example_defs)
  have r: "get_outcome world_R (''ns1'', ''my-rs'') = Inl (ReadError ''timeout'')"
    by (simp add: get_outcome_def example_defs)
  show ?thesis
    using a r
      Reconcile_not_found [of world_A "(''ns1'', ''ghost'')" NotFoundError
        example_marshal example_defaults example_marshal example_defaults]
      Reconcile_not_found [of world_R "(''ns1'', ''my-rs'')" "ReadError ''timeout''"
        example_marshal example_defaults example_marshal example_defaults]
    by simp
qed

subsection \<open>Writing the config map\<close>

text \<open>
  Claim C3.  When the resource was read and its config map built, and the create-or-update
  of the config map fails, Reconcile returns that error, which requeues the request.  It
  stops there: after the failed call it only logs the failure, the environment variable of
  the agent image is never read, so the stateful set is not built, the only object handed
  to the client is the config map, the stored objects are unchanged, and the resource
  defaults, which only the stateful set uses, have no influence on the outcome.
\<close>

theorem Reconcile_halts_at_config:
  assumes "get_outcome w request = Inr mdb"
    and "buildAutomationConfigConfigMap marshal mdb = Inr cm"
    and "upsert_fault w (ConfigMapObj cm) = Some e"
  shows "fst (Reconcile marshal defaults w request) = (Result_zero, Some e) \<and>
     requeue_requested (fst (Reconcile marshal defaults w request)) \<and>
     new_events w (snd (Reconcile marshal defaults w request)) =
       [LogInfo ''Reconciling MongoDB'', ClientGet request,
        ClientCreateOrUpdate (ConfigMapObj cm), LogWarnf ''failed creating config map: %s'' e] \<and>
     Getenv agentImageEnvVariable \<notin> set (new_events w (snd (Reconcile marshal defaults w request))) \<and>
     upserts (new_events w (snd (Reconcile marshal defaults w request))) = [ConfigMapObj cm] \<and>
     objects (snd (Reconcile marshal defaults w request)) = objects w \<and>
     Reconcile marshal defaults w request = Reconcile marshal defaults' w request"
  by (simp add: Reconcile_config_upsert_failed [OF assms] emit_fields new_events_def)

theorem Reconcile_halts_at_config_witness:
  "get_outcome world_C (''ns1'', ''my-rs'') = Inr scenarioA \<and>
   upsert_fault world_C
     (ConfigMapObj (example_config_map ''replica-set my-rs my-rs-service.ns1.svc.my-rs 4.2.0'')) =
     Some (UpsertError ''unavailable'') \<and>
   fst (Reconcile example_marshal example_defaults world_C (''ns1'', ''my-rs'')) =
     (Result_zero, Some (UpsertError ''unavailable'')) \<and>
   requeue_requested (fst (Reconcile example_marshal example_defaults world_C (''ns1'', ''my-rs''))) \<and>
   Getenv agentImageEnvVariable \<notin> set (new_events world_C
     (snd (Reconcile example_marshal example_defaults world_C (''ns1'', ''my-rs''))))"
proof -
  have g: "get_outcome world_C (''ns1'', ''my-rs'') = Inr scenarioA"
    by (simp add: get_outcome_def example_defs)
  have u: "upsert_fault world_C
     (ConfigMapObj (example_config_map ''replica-set my-rs my-rs-service.ns1.svc.my-rs 4.2.0'')) =
     Some (UpsertError ''unavailable'')"
    by (simp add: example_defs)
  show ?thesis
    using g u Reconcile_halts_at_config [OF g example_config_A u, of example_defaults]
    by simp
qed

subsection \<open>Building the stateful set\<close>

text \<open>
  Claim C2.  A resource with no members makes the build of the stateful set fail with a
  build error.  When the resource was read, its config map written, and the build of the
  stateful set fails, Reconcile returns the zero result and no error, so nothing is
  requeued; after the build it only logs the failure, the only object handed to the client
  is the config map, and the stored objects are those before with the config map added.
\<close>

theorem Reconcile_build_failure:
  "(Members (mdb_Spec mdb) = 0 \<longrightarrow>
      fst (buildStatefulSet defaults w mdb) = Inl (BuildError ''invalid replica count'')) \<and>
   (get_outcome w request = Inr mdb \<and> buildAutomationConfigConfigMap marshal mdb = Inr cm \<and>
    upsert_fault w (ConfigMapObj cm) = None \<and> fst (buildStatefulSet defaults w mdb) = Inl e \<longrightarrow>
      fst (Reconcile marshal defaults w request) = (Result_zero, None) \<and>
      \<not> requeue_requested (fst (Reconcile marshal defaults w request)) \<and>
      new_events w (snd (Reconcile marshal defaults w request)) =
        [LogInfo ''Reconciling MongoDB'', ClientGet request,
         ClientCreateOrUpdate (ConfigMapObj cm), Getenv agentImageEnvVariable,
         LogWarnf ''error building StatefulSet: %s'' e] \<and>
      upserts (new_events w (snd (Reconcile marshal defaults w request))) = [ConfigMapObj cm] \<and>
      objects (snd (Reconcile marshal defaults w request)) =
        (objects w)(object_key (ConfigMapObj cm) \<mapsto> ConfigMapObj cm))"
proof (rule conjI)
  show "Members (mdb_Spec mdb) = 0 \<longrightarrow>
      fst (buildStatefulSet defaults w mdb) = Inl (BuildError ''invalid replica count'')"
    by (simp add: buildStatefulSet_fst)
next
  let ?R = "Reconcile marshal defaults w request"
  show "get_outcome w request = Inr mdb \<and> buildAutomationConfigConfigMap marshal mdb = Inr cm \<and>
    upsert_fault w (ConfigMapObj cm) = None \<and> fst (buildStatefulSet defaults w mdb) = Inl e \<longrightarrow>
      fst ?R = (Result_zero, None) \<and>
      \<not> requeue_requested (fst ?R) \<and>
      new_events w (snd ?R) =
        [LogInfo ''Reconciling MongoDB'', ClientGet request,
         ClientCreateOrUpdate (ConfigMapObj cm), Getenv agentImageEnvVariable,
         LogWarnf ''error building StatefulSet: %s'' e] \<and>
      upserts (new_events w (snd ?R)) = [ConfigMapObj cm] \<and>
      objects (snd ?R) = (objects w)(object_key (ConfigMapObj cm) \<mapsto> ConfigMapObj cm)"
  proof (rule impI)
    assume h: "get_outcome w request = Inr mdb \<and>
      buildAutomationConfigConfigMap marshal mdb = Inr cm \<and>
      upsert_fault w (ConfigMapObj cm) = None \<and> fst (buildStatefulSet defaults w mdb) = Inl e"
    have eq: "?R =
       ((Result_zero, None),
        emit (LogWarnf ''error building StatefulSet: %s'' e)
          (emit (Getenv agentImageEnvVariable) (config_ensured w request cm)))"
      using h by (simp add: Reconcile_after_config [of w request mdb marshal cm defaults])
    show "fst ?R = (Result_zero, None) \<and>
      \<not> requeue_requested (fst ?R) \<and>
      new_events w (snd ?R) =
        [LogInfo ''Reconciling MongoDB'', ClientGet request,
         ClientCreateOrUpdate (ConfigMapObj cm), Getenv agentImageEnvVariable,
         LogWarnf ''error building StatefulSet: %s'' e] \<and>
      upserts (new_events w (snd ?R)) = [ConfigMapObj cm] \<and>
      objects (snd ?R) = (objects w)(object_key (ConfigMapObj cm) \<mapsto> ConfigMapObj cm)"
      by (simp add: eq emit_fields config_ensured_fields new_events_def Result_zero_def)
  qed
qed

theorem Reconcile_build_failure_witness:
  "Members (mdb_Spec scenarioD) = 0 \<and>
   get_outcome world_D (''ns1'', ''my-rs'') = Inr scenarioD \<and>
   upsert_fault world_D
     (ConfigMapObj (example_config_map ''replica-set my-rs my-rs-service.ns1.svc.my-rs 4.2.0'')) =
     None \<and>
   fst (buildStatefulSet example_defaults world_D scenarioD) =
     Inl (BuildError ''invalid replica count'') \<and>
   fst (Reconcile example_marshal example_defaults world_D (''ns1'', ''my-rs'')) =
     (Result_zero, None) \<and>
   \<not> requeue_requested (fst (Reconcile example_marshal example_defaults world_D (''ns1'', ''my-rs''))) \<and>
   upserts (new_events world_D
     (snd (Reconcile example_marshal example_defaults world_D (''ns1'', ''my-rs'')))) =
     [ConfigMapObj (example_config_map ''replica-set my-rs my-rs-service.ns1.svc.my-rs 4.2.0'')]"
proof -
  have m: "Members (mdb_Spec scenarioD) = 0" by (simp add: scenarioD_def)
  have g: "get_outcome world_D (''ns1'', ''my-rs'') = Inr scenarioD"
    by (simp add: get_outcome_def example_defs)
  have u: "upsert_fault world_D
     (ConfigMapObj (example_config_map ''replica-set my-rs my-rs-service.ns1.svc.my-rs 4.2.0'')) =
     None"
    by (simp add: example_defs)
  show ?thesis
    using m g u example_config_D
      Reconcile_build_failure [of scenarioD example_defaults world_D "(''ns1'', ''my-rs'')"
        example_marshal
        "example_config_map ''replica-set my-rs my-rs-service.ns1.svc.my-rs 4.2.0''"
        "BuildError ''invalid replica count''"]
    by (simp add: Result_zero_def)
qed



text \<open>
  Claim C10.  Whenever the build of the stateful set succeeds, the labels of the stateful
  set, the match-labels of its selector and the labels of its pod template are one and the
  same map, so every label the selector asks for is on the pods of the template.
\<close>

theorem buildStatefulSet_labels_agree:
  "fst (buildStatefulSet defaults w d) = Inr sts \<Longrightarrow>
   om_Labels (sts_ObjectMeta sts) = MatchLabels (Selector (sts_Spec sts)) \<and>
   MatchLabels (Selector (sts_Spec sts)) = om_Labels (pts_ObjectMeta (Template (sts_Spec sts))) \<and>
   MatchLabels (Selector (sts_Spec sts)) \<subseteq>\<^sub>m om_Labels (pts_ObjectMeta (Template (sts_Spec sts)))"
  by (auto simp add: buildStatefulSet_fst split: if_splits)

theorem buildStatefulSet_labels_agree_witness:
  "\<exists>sts. fst (buildStatefulSet example_defaults world_A scenarioA) = Inr sts \<and>
      om_Labels (sts_ObjectMeta sts) = MatchLabels (Selector (sts_Spec sts)) \<and>
      MatchLabels (Selector (sts_Spec sts)) = om_Labels (pts_ObjectMeta (Template (sts_Spec sts)))"
proof -
  obtain sts where s: "fst (buildStatefulSet example_defaults world_A scenarioA) = Inr sts"
    by (simp add: buildStatefulSet_fst scenarioA_def)
  show ?thesis
    using s buildStatefulSet_labels_agree [OF s] by blast
qed

subsection \<open>The automation config\<close>

text \<open>
  Claim C1, evaluated on the code.  For scenario A the config map is named
  \<^verbatim>\<open>my-rs-config\<close>, lies in \<^verbatim>\<open>ns1\<close> and has the single entry \<^verbatim>\<open>automation-config\<close> with the
  serialised document, and the document has the replica-set topology and three members.
  Its domain, however, is \<^verbatim>\<open>my-rs-service.ns1.svc.my-rs\<close>: buildAutomationConfig passes the
  name of the resource where getDomain expects the cluster domain, so the domain is not
  \<^verbatim>\<open>my-rs-service.ns1.svc.cluster.local\<close>.
\<close>

theorem scenarioA_config_artifact:
  "buildAutomationConfig scenarioA =
     \<lparr>ac_Topology = ''replica-set'', ac_Name = ''my-rs'',
      ac_Domain = ''my-rs-service.ns1.svc.my-rs'', ac_Members = 3,
      ac_MongoDBVersion = ''4.2.0'', ac_Version = 1\<rparr> \<and>
   ac_Domain (buildAutomationConfig scenarioA) \<noteq> ''my-rs-service.ns1.svc.cluster.local'' \<and>
   buildAutomationConfigConfigMap marshal scenarioA =
     (case marshal (buildAutomationConfig scenarioA) of
        Inl err \<Rightarrow> Inl err
      | Inr text \<Rightarrow>
          Inr \<lparr>cm_ObjectMeta = \<lparr>om_Name = ''my-rs-config'', om_Namespace = ''ns1'',
                                 om_Labels = Map.empty\<rparr>,
               cm_Data = [''automation-config'' \<mapsto> text]\<rparr>)"
  by (simp add: buildAutomationConfig_eq buildAutomationConfigConfigMap_def scenarioA_def
        getDomain_def ServiceName_def ConfigMapName_def ReplicaSetTopology_def cm_defs
        automationConfigKey_def Let_def split: sum.splits)

text \<open>
  Claim C6.  For every resource, the automation config has the member count and the version
  of the resource's spec, unchanged, and the replica-set topology.
\<close>

theorem buildAutomationConfig_copies:
  "ac_Members (buildAutomationConfig d) = Members (mdb_Spec d) \<and>
   ac_MongoDBVersion (buildAutomationConfig d) = Version (mdb_Spec d) \<and>
   ac_Topology (buildAutomationConfig d) = ReplicaSetTopology"
  by (simp add: buildAutomationConfig_eq)

text \<open>
  Claim C8.  The version counter of every automation config is 1, so along any sequence of
  resource states reconciled one after the other, the counters of the documents never
  decrease.
\<close>

theorem config_version_fixed:
  "ac_Version (buildAutomationConfig d) = 1 \<and>
   sorted (map (\<lambda>d. ac_Version (buildAutomationConfig d)) ds)"
proof
  show "ac_Version (buildAutomationConfig d) = 1"
    by (simp add: buildAutomationConfig_eq)
  show "sorted (map (\<lambda>d. ac_Version (buildAutomationConfig d)) ds)"
    by (induction ds) (simp_all add: buildAutomationConfig_eq)
qed

subsection \<open>Idempotence\<close>

text \<open>
  Claim C5.  The two builders give the same config map and the same stateful set for the
  same resource in any two worlds that agree on the variable \<^verbatim>\<open>AGENT_IMAGE\<close>, whatever else
  differs between them.  And when Reconcile runs a second time in the world the first run
  left, it returns the same result, hands the same objects to the client in the same order,
  and leaves the stored objects as the first run left them.
\<close>

theorem builders_idempotent:
  "(environ w agentImageEnvVariable = environ w' agentImageEnvVariable \<longrightarrow>
      builder_pipeline marshal defaults w d = builder_pipeline marshal defaults w' d) \<and>
   fst (Reconcile marshal defaults (snd (Reconcile marshal defaults w rq)) rq) =
     fst (Reconcile marshal defaults w rq) \<and>
   upserts (new_events (snd (Reconcile marshal defaults w rq))
      (snd (Reconcile marshal defaults (snd (Reconcile marshal defaults w rq)) rq))) =
     upserts (new_events w (snd (Reconcile marshal defaults w rq))) \<and>
   objects (snd (Reconcile marshal defaults (snd (Reconcile marshal defaults w rq)) rq)) =
     objects (snd (Reconcile marshal defaults w rq))"
proof -
  let ?w1 = "snd (Reconcile marshal defaults w rq)"
  have s: "resources ?w1 = resources w" "read_fault ?w1 = read_fault w"
    "upsert_fault ?w1 = upsert_fault w" "environ ?w1 = environ w"
    using Reconcile_surroundings [of marshal defaults w rq] by simp_all
  have p: "environ w agentImageEnvVariable = environ w' agentImageEnvVariable \<longrightarrow>
      builder_pipeline marshal defaults w d = builder_pipeline marshal defaults w' d"
    by (simp add: builder_pipeline_def buildStatefulSet_fst agentImageEnvVariable_def)
  show ?thesis
    using p Reconcile_frame [OF s, of marshal defaults rq]
      Reconcile_objects_again [of marshal defaults w rq]
    by simp
qed

theorem builders_idempotent_witness:
  "environ world_A agentImageEnvVariable = environ world_C agentImageEnvVariable \<and>
   builder_pipeline example_marshal example_defaults world_A scenarioA =
     builder_pipeline example_marshal example_defaults world_C scenarioA \<and>
   upserts (new_events (snd (Reconcile example_marshal example_defaults world_A (''ns1'', ''my-rs'')))
      (snd (Reconcile example_marshal example_defaults
        (snd (Reconcile example_marshal example_defaults world_A (''ns1'', ''my-rs'')))
        (''ns1'', ''my-rs'')))) =
     upserts (new_events world_A
       (snd (Reconcile example_marshal example_defaults world_A (''ns1'', ''my-rs''))))"
proof -
  have e: "environ world_A agentImageEnvVariable = environ world_C agentImageEnvVariable"
    by (simp add: example_defs)
  show ?thesis
    using e builders_idempotent [of world_A world_C example_marshal example_defaults scenarioA
        "(''ns1'', ''my-rs'')"]
    by simp
qed

end
